theory Spec2Isabelle
  imports Complex_Main "HOL-Library.Word" "HOL-Library.Sublist" "HOL-Library.Log_Nat"
begin

section \<open>JavaScript values used by the UART module\<close>

text \<open>
  A JavaScript string is a sequence of 16-bit code units; a Node Buffer is a sequence of
  bytes. \<open>lit\<close> writes an ASCII literal of the source as code units.
\<close>

type_synonym jsstring = "16 word list"
type_synonym bytes = "8 word list"

definition lit :: "string \<Rightarrow> jsstring" where
  "lit cs = map (\<lambda>c. of_nat (of_char c)) cs"

text \<open>The exceptions the Buffer methods and a property read of \<open>undefined\<close> throw.\<close>

datatype jserror =
    AllocSizeError      \<comment> \<open>Buffer.alloc: size negative or above the platform maximum\<close>
  | ValueOutOfRange     \<comment> \<open>writeUInt16LE: value outside 0..0xffff\<close>
  | OutOfBounds         \<comment> \<open>a read or write beyond the end of the buffer\<close>
  | TypeError           \<comment> \<open>a method call on \<open>undefined\<close>\<close>

subsection \<open>Numbers\<close>

text \<open>
  A number is an IEEE 754 double: \<open>NaN\<close>, an infinity or a finite value, held here as the
  rational it denotes (the two zeros are one value; no comparison tells them apart).
\<close>

datatype jsnum = NaN | PosInf | NegInf | Finite rat

definition pow2 :: "int \<Rightarrow> rat" where
  "pow2 e = (if 0 \<le> e then 2 ^ nat e else 1 / 2 ^ nat (- e))"

text \<open>The nearest integer, a tie going to the even one.\<close>

definition roundEven :: "rat \<Rightarrow> int" where
  "roundEven x =
     (let f = \<lfloor>x\<rfloor>; r = x - of_int f
      in if r < 1 / 2 then f else if 1 / 2 < r then f + 1 else if even f then f else f + 1)"

text \<open>For a positive \<open>a\<close>, the exponent \<open>e\<close> with \<open>2^e \<le> a < 2^(e+1)\<close>.\<close>

definition floorlog2 :: "rat \<Rightarrow> int" where
  "floorlog2 a = (if 1 \<le> a then bitlen \<lfloor>a\<rfloor> - 1 else - bitlen (\<lceil>1 / a\<rceil> - 1))"

text \<open>
  The double nearest to a rational (round to nearest, ties to even): 53 significant bits,
  the unit in the last place never below \<open>2^-1074\<close>, and an infinity from \<open>2^1024\<close> on.
  Every arithmetic operation on doubles is the exact operation followed by this rounding.
\<close>

definition fl :: "rat \<Rightarrow> jsnum" where
  "fl x =
     (if x = 0 then Finite 0
      else let a = \<bar>x\<bar>;
               u = max (floorlog2 a - 52) (- 1074);
               m = of_int (roundEven (a / pow2 u)) * pow2 u
           in if pow2 1024 \<le> m then (if 0 < x then PosInf else NegInf)
              else Finite (if 0 < x then m else - m))"

text \<open>The operators \<open>*\<close>, \<open>-\<close> and \<open><\<close> on numbers.\<close>

fun mulD :: "jsnum \<Rightarrow> jsnum \<Rightarrow> jsnum" where
  "mulD (Finite a) (Finite b) = fl (a * b)"
| "mulD NaN y = NaN"
| "mulD x NaN = NaN"
| "mulD (Finite a) y = (if a = 0 then NaN else if (0 < a) = (y = PosInf) then PosInf else NegInf)"
| "mulD x (Finite b) = (if b = 0 then NaN else if (0 < b) = (x = PosInf) then PosInf else NegInf)"
| "mulD x y = (if x = y then PosInf else NegInf)"

fun subD :: "jsnum \<Rightarrow> jsnum \<Rightarrow> jsnum" where
  "subD (Finite a) (Finite b) = fl (a - b)"
| "subD NaN y = NaN"
| "subD x NaN = NaN"
| "subD (Finite a) y = (if y = PosInf then NegInf else PosInf)"
| "subD x (Finite b) = x"
| "subD x y = (if x = y then NaN else x)"

fun ltD :: "jsnum \<Rightarrow> jsnum \<Rightarrow> bool" where
  "ltD (Finite a) (Finite b) = (a < b)"
| "ltD NaN y = False"
| "ltD x NaN = False"
| "ltD x y = (x \<noteq> y \<and> (x = NegInf \<or> y = PosInf))"

subsection \<open>Buffer primitives\<close>

text \<open>
  \<open>Buffer.alloc(size)\<close> returns \<open>size\<close> zero bytes and throws for a negative size or one above
  \<open>buffer.constants.MAX_LENGTH\<close>, a constant of the platform taken here as a parameter.
\<close>

definition alloc :: "int \<Rightarrow> int \<Rightarrow> jserror + bytes" where
  "alloc maxLength n =
     (if n < 0 \<or> maxLength < n then Inl AllocSizeError
      else Inr (replicate (nat n) 0))"

text \<open>
  \<open>buf.writeUInt16LE(value)\<close> at offset 0. A number is \<open>Some v\<close>, \<open>NaN\<close> is \<open>None\<close>.
  The range check comes first and lets \<open>NaN\<close> through (both comparisons with it are false);
  the stores then convert to a byte, which takes \<open>NaN\<close> to 0.
\<close>

definition writeUInt16LE :: "bytes \<Rightarrow> int option \<Rightarrow> jserror + bytes" where
  "writeUInt16LE buf v =
     (if (case v of None \<Rightarrow> False | Some n \<Rightarrow> 65535 < n \<or> n < 0) then Inl ValueOutOfRange
      else if length buf < 2 then Inl OutOfBounds
      else (case v of
              None \<Rightarrow> Inr (0 # 0 # drop 2 buf)
            | Some n \<Rightarrow> Inr (word_of_int n # word_of_int (n div 256) # drop 2 buf)))"

text \<open>\<open>buf.readUInt16LE()\<close> at offset 0.\<close>

definition readUInt16LE :: "bytes \<Rightarrow> jserror + nat" where
  "readUInt16LE buf =
     (case buf of
        b0 # b1 # _ \<Rightarrow> Inr (unat b0 + unat b1 * 256)
      | _ \<Rightarrow> Inl OutOfBounds)"

text \<open>
  \<open>buf.asciiWrite(string, offset)\<close>: an offset beyond the end throws; otherwise as many code
  units as fit into the room after \<open>offset\<close> are stored there, each as its low byte. For a
  room of \<open>2^31\<close> bytes or more the count passes through a 32-bit integer of the platform and
  fewer code units, or none, may be stored: how many of those that fit, for a room and a
  string length, is the parameter \<open>wide\<close>.
\<close>

definition asciiWrite :: "(nat \<Rightarrow> nat \<Rightarrow> nat) \<Rightarrow> bytes \<Rightarrow> jsstring \<Rightarrow> nat \<Rightarrow> jserror + bytes" where
  "asciiWrite wide buf s offset =
     (if length buf < offset then Inl OutOfBounds
      else let room = length buf - offset;
               fit = min room (length s);
               n = (if room < 2147483648 then fit else min fit (wide room (length s)))
           in Inr (take offset buf @ map ucast (take n s) @ drop (offset + n) buf))"

text \<open>\<open>s.substr(0, len)\<close>: a length that is not positive gives the empty string.\<close>

definition substr0 :: "jsstring \<Rightarrow> int \<Rightarrow> jsstring" where
  "substr0 s len = (if len \<le> 0 then [] else take (nat len) s)"

subsection \<open>\<open>Number.parseInt(s, 16)\<close>\<close>

text \<open>White space and line terminators of ECMAScript, as code units.\<close>

definition isWhiteSpace :: "16 word \<Rightarrow> bool" where
  "isWhiteSpace c \<longleftrightarrow>
     c \<in> set [0x9, 0xA, 0xB, 0xC, 0xD, 0x20, 0xA0, 0x1680, 0x2000, 0x2001, 0x2002, 0x2003,
              0x2004, 0x2005, 0x2006, 0x2007, 0x2008, 0x2009, 0x200A, 0x2028, 0x2029,
              0x202F, 0x205F, 0x3000, 0xFEFF]"

definition hexDigit :: "16 word \<Rightarrow> nat option" where
  "hexDigit c =
     (if 0x30 \<le> c \<and> c \<le> 0x39 then Some (unat c - 0x30)
      else if 0x41 \<le> c \<and> c \<le> 0x46 then Some (unat c - 0x41 + 10)
      else if 0x61 \<le> c \<and> c \<le> 0x66 then Some (unat c - 0x61 + 10)
      else None)"

text \<open>The values of the longest prefix of hexadecimal digits.\<close>

fun hexDigits :: "jsstring \<Rightarrow> nat list" where
  "hexDigits [] = []"
| "hexDigits (c # cs) = (case hexDigit c of None \<Rightarrow> [] | Some d \<Rightarrow> d # hexDigits cs)"

text \<open>
  Leading white space is dropped, then a sign, then a \<open>0x\<close> or \<open>0X\<close> prefix; the digits that
  follow are read in base 16 and what comes after them is ignored. No digit gives \<open>NaN\<close>.
  The result is the exact integer; a double rounds it above \<open>2^53\<close>, far beyond the
  range \<open>writeUInt16LE\<close> accepts.
\<close>

definition parseInt16 :: "jsstring \<Rightarrow> int option" where
  "parseInt16 s =
     (let s1 = dropWhile isWhiteSpace s;
          neg = (case s1 of [] \<Rightarrow> False | c # _ \<Rightarrow> c = 0x2D);
          s2 = (case s1 of [] \<Rightarrow> s1 | c # r \<Rightarrow> if c = 0x2B \<or> c = 0x2D then r else s1);
          s3 = (case s2 of
                  a # b # r \<Rightarrow> if a = 0x30 \<and> (b = 0x78 \<or> b = 0x58) then r else s2
                | _ \<Rightarrow> s2);
          ds = hexDigits s3
      in if ds = [] then None
         else let n = int (foldl (\<lambda>acc d. 16 * acc + d) 0 ds)
              in Some (if neg then - n else n))"

section \<open>Configuration and module state\<close>

text \<open>
  The fields of \<open>interface\<close> (config.js) that the UART module reads, and beside them two
  facts of the platform: \<open>buffer.constants.MAX_LENGTH\<close> and what \<open>asciiWrite\<close> stores into a
  room of \<open>2^31\<close> bytes or more.
\<close>

record config =
  txlength :: int
  isServer :: bool
  debugMode :: bool
  heartbeatInterval :: int
  kMaxLength :: int
  asciiWriteWide :: "nat \<Rightarrow> nat \<Rightarrow> nat"

text \<open>
  The values of config.js, on a platform that allocates up to \<open>2^32\<close> bytes and stores
  nothing into a room of \<open>2^31\<close> bytes or more.
\<close>

definition interface :: config where
  "interface = \<lparr>txlength = 80, isServer = False, debugMode = False,
                 heartbeatInterval = 15000, kMaxLength = 4294967296,
                 asciiWriteWide = (\<lambda>room len. 0)\<rparr>"

text \<open>
  The argument of \<open>uartWrite\<close>: the string \<open>str\<close> (a necessary field), the optional
  \<open>addr\<close> (a missing key, or \<open>null\<close>/\<open>undefined\<close>, or a string) and whether the key
  \<open>internal\<close> is present.
\<close>

datatype addrfield = Absent | Null | Addr jsstring

record msg =
  str :: jsstring
  addr :: addrfield
  internal :: bool

text \<open>
  \<open>util.showMsg(level, text)\<close> is a collaborator outside this module: every call is
  recorded, the text by its call site and the values spliced into it. Byte lists stand for
  the string that \<open>toString()\<close> decodes from them.
\<close>

datatype level = Info | Error

datatype logtext =
    AddedToQueue addrfield jsstring   \<comment> \<open>Added to UART send queue: 0x<addr>:'<str>'\<close>
  | UartWriteError jsstring           \<comment> \<open>UART write error: <err.message>\<close>
  | SentToSensorTag bytes             \<comment> \<open>Sent '<msg>' to connected SensorTag.\<close>
  | SentTo bytes nat                  \<comment> \<open>Sent '<msg>' to 0x<addr>\<close>
  | SendingAborted                    \<comment> \<open>Sending aborted. SensorTag isn't connected.\<close>
  | HeartbeatCrashed                  \<comment> \<open>Error: Heartbeat: The ServerTag has possibly crashed!\<close>
  | UartData bytes                    \<comment> \<open>UART:<data without trailing NULs>\<close>
  | ChallengeResponse bytes           \<comment> \<open>Challenge response: <str>\<close>
  | NoResponse                        \<comment> \<open>No response to challenge. Disconnecting.\<close>
  | PortCloseError jsstring           \<comment> \<open>Port close error: <err>\<close>
  | BlankLine

text \<open>Calls into the port finder and the serial driver that only start work elsewhere.\<close>

datatype extcall = NextPort | PortClose

datatype timer = ChallengeTimeout | UartSenderService

record serialport =
  isOpen :: bool

text \<open>
  The state the module's functions read and write: \<open>uart.responded\<close>, \<open>uart.hbTime\<close>
  (\<open>None\<close> while the property is undefined), the queue \<open>uartSendBuffer\<close> with its oldest
  entry first, \<open>interface.port\<close>, and what has reached the collaborators: the buffers handed
  to \<open>port.write\<close>, the log, the port finder's blacklist, the calls listed above, the
  timers armed with \<open>setTimeout\<close> (delay in ms) and those set with \<open>setInterval\<close> (period in
  ms).
\<close>

record state =
  responded :: bool
  hbTime :: "int option"
  queue :: "(bytes \<times> bool) list"
  port :: "serialport option"
  sent :: "bytes list"
  shown :: "(level \<times> logtext) list"
  blacklist :: "string list"
  calls :: "extcall list"
  timers :: "(nat \<times> timer) list"
  intervals :: "(nat \<times> timer) list"

text \<open>
  The state once the module is loaded: \<open>uart.responded = false\<close>, an empty queue, and the
  sender set to fire every 50 ms by \<open>setInterval(uartSender, 50)\<close>.
\<close>

definition init :: state where
  "init = \<lparr>responded = False, hbTime = None, queue = [], port = None, sent = [], shown = [],
           blacklist = [], calls = [], timers = [], intervals = [(50, UartSenderService)]\<rparr>"

definition showMsg :: "level \<Rightarrow> logtext \<Rightarrow> state \<Rightarrow> state" where
  "showMsg l t s = s\<lparr>shown := shown s @ [(l, t)]\<rparr>"

section \<open>uartWrite\<close>

text \<open>The address string written in multiplexed mode: \<open>ffff\<close> unless \<open>msg.addr\<close> is given.\<close>

definition addrOf :: "msg \<Rightarrow> jsstring" where
  "addrOf m = (case addr m of Addr a \<Rightarrow> a | _ \<Rightarrow> lit ''ffff'')"

text \<open>The two branches that fill the freshly allocated buffer.\<close>

definition fillTxBuf :: "config \<Rightarrow> msg \<Rightarrow> bytes \<Rightarrow> jserror + bytes" where
  "fillTxBuf cfg m txBuf =
     (if isServer cfg \<and> \<not> internal m then
        (case writeUInt16LE txBuf (parseInt16 (addrOf m)) of
           Inl e \<Rightarrow> Inl e
         | Inr b \<Rightarrow> asciiWrite (asciiWriteWide cfg) b (substr0 (str m) (txlength cfg - 3)) 2)
      else asciiWrite (asciiWriteWide cfg) txBuf (substr0 (str m) (txlength cfg - 1)) 0)"

text \<open>
  The result pairs the exception that left the function, if any, with the state at that
  moment. An exception leaves before the enqueue.
\<close>

definition uartWrite :: "config \<Rightarrow> msg \<Rightarrow> bool \<Rightarrow> state \<Rightarrow> jserror option \<times> state" where
  "uartWrite cfg m publish s =
     (case alloc (kMaxLength cfg) (txlength cfg) of
        Inl e \<Rightarrow> (Some e, s)
      | Inr txBuf \<Rightarrow>
          let s1 = (if debugMode cfg then showMsg Info (AddedToQueue (addr m) (str m)) s else s)
          in (case fillTxBuf cfg m txBuf of
                Inl e \<Rightarrow> (Some e, s1)
              | Inr b \<Rightarrow> (None, s1\<lparr>queue := queue s1 @ [(b, publish)]\<rparr>)))"

section \<open>heartbeat\<close>

text \<open>
  The test of the source on \<open>now - uart.hbTime\<close>, in the arithmetic of doubles. The
  interval and the two times are whole numbers of milliseconds, each held as the double
  nearest to it; with \<open>hbTime\<close> undefined the difference is \<open>NaN\<close> and both comparisons are
  false. The literals 1.5 and 2.5 are doubles as they stand.
\<close>

definition suspect :: "config \<Rightarrow> int \<Rightarrow> int option \<Rightarrow> bool" where
  "suspect cfg now hb =
     (let elapsed = (case hb of
                       None \<Rightarrow> NaN
                     | Some t \<Rightarrow> subD (fl (of_int now)) (fl (of_int t)));
          interval = fl (of_int (heartbeatInterval cfg))
      in ltD (mulD interval (Finite (3 / 2))) elapsed
         \<and> ltD elapsed (mulD interval (Finite (5 / 2))))"

definition hbMsg :: msg where
  "hbMsg = \<lparr>str = [0, 0, 1] @ lit ''HB'', addr = Absent, internal = True\<rparr>"

text \<open>\<open>now\<close> is the value of \<open>Date.now()\<close>.\<close>

definition heartbeat :: "config \<Rightarrow> int \<Rightarrow> state \<Rightarrow> jserror option \<times> state" where
  "heartbeat cfg now s =
     (let s1 = (if suspect cfg now (hbTime s) then showMsg Error HeartbeatCrashed s else s)
      in uartWrite cfg hbMsg False s1)"


section \<open>uartSender\<close>

text \<open>
  The callback given to \<open>port.write\<close>; it only logs. \<open>err\<close> is the driver's verdict on the
  write (\<open>Some\<close> the error's message on failure), \<open>text\<close> and \<open>a\<close> are \<open>msg\<close> and \<open>addr\<close> as
  computed before the write, \<open>p\<close> is \<open>interface.port\<close>.
\<close>

definition writeCallback ::
  "config \<Rightarrow> jsstring option \<Rightarrow> bytes \<Rightarrow> nat \<Rightarrow> bool \<Rightarrow> serialport \<Rightarrow> state \<Rightarrow> state" where
  "writeCallback cfg err text a publish p s =
     (case err of
        Some e \<Rightarrow> showMsg Error (UartWriteError e) s
      | None \<Rightarrow>
          if \<not> isServer cfg then showMsg Info (SentToSensorTag text) s
          else if publish \<and> isOpen p then showMsg Info (SentTo text a) s
          else if publish then showMsg Error SendingAborted s
          else s)"

text \<open>
  One firing of the timer set with \<open>setInterval(uartSender, 50)\<close>. The entry is taken off
  the queue before anything else; in server mode \<open>readUInt16LE\<close> can throw on it, which
  leaves the function before the write. \<open>port.write\<close> belongs to the serial driver: it does
  not throw, completes the write later and then calls back. The callback touches the log
  only, so it is run here at once with the verdict \<open>err\<close>.
\<close>

definition uartSender :: "config \<Rightarrow> jsstring option \<Rightarrow> state \<Rightarrow> jserror option \<times> state" where
  "uartSender cfg err s =
     (case queue s of
        [] \<Rightarrow> (None, s)
      | (txBuf, publish) # rest \<Rightarrow>
          (case port s of
             None \<Rightarrow> (None, s)
           | Some p \<Rightarrow>
               let s1 = s\<lparr>queue := rest\<rparr> in
               if isServer cfg then
                 (case readUInt16LE txBuf of
                    Inl e \<Rightarrow> (Some e, s1)
                  | Inr a \<Rightarrow>
                      (None, writeCallback cfg err (filter (\<lambda>b. b \<noteq> 0) (drop 2 txBuf)) a publish p
                               (s1\<lparr>sent := sent s1 @ [txBuf]\<rparr>)))
               else
                 (None, writeCallback cfg err (filter (\<lambda>b. b \<noteq> 0) txBuf) 0 publish p
                          (s1\<lparr>sent := sent s1 @ [txBuf]\<rparr>))))"

section \<open>parseChallenge\<close>

text \<open>\<open>data[i]\<close>: \<open>undefined\<close> (\<open>None\<close>) beyond the end of the buffer.\<close>

definition byteAt :: "bytes \<Rightarrow> nat \<Rightarrow> 8 word option" where
  "byteAt data i = (if i < length data then Some (data ! i) else None)"

text \<open>The NULs at the end removed, as \<open>replace\<close> with \<open>/\0*$/\<close> does.\<close>

definition stripNuls :: "bytes \<Rightarrow> bytes" where
  "stripNuls bs = rev (dropWhile (\<lambda>b. b = 0) (rev bs))"

text \<open>
  Modelled from the spec: \<open>portFinder.clearBlacklist\<close>, whose source is not part of the
  module. The blacklist is the set of failed port identifiers, and a verified handshake
  response clears it.
\<close>

definition clearBlacklist :: "state \<Rightarrow> state" where
  "clearBlacklist s = s\<lparr>blacklist := []\<rparr>"

text \<open>The comparisons are those of \<open>==\<close> on a byte or \<open>undefined\<close>.\<close>

definition parseChallenge :: "config \<Rightarrow> bytes \<Rightarrow> state \<Rightarrow> bool \<times> state" where
  "parseChallenge cfg data s =
     (let s1 = (if debugMode cfg then showMsg Info (UartData (stripNuls data)) s else s);
          s2 = (if byteAt data 0 = byteAt data 1 \<and> byteAt data 1 = Some 0xfe
                   \<and> byteAt data 2 = Some 1
                then (clearBlacklist
                        (showMsg Info (ChallengeResponse (stripNuls (drop 3 data))) s1))
                     \<lparr>responded := True\<rparr>
                else s1)
      in (False, s2))"

section \<open>sendChallenge\<close>

definition challengeMsg :: msg where
  "challengeMsg = \<lparr>str = [0, 0, 1] @ lit ''Identify'', addr = Absent, internal = True\<rparr>"

text \<open>
  The function given to \<open>setTimeout\<close>. \<open>portFinder.nextPort()\<close> and \<open>port.close\<close> are
  recorded as calls; \<open>closeErr\<close> is what the driver later passes to the callback of
  \<open>close\<close>, which logs after the function has returned.
\<close>

definition challengeTimeout :: "jsstring option \<Rightarrow> state \<Rightarrow> jserror option \<times> state" where
  "challengeTimeout closeErr s =
     (if \<not> responded s then
        let s1 = showMsg Info NoResponse s;
            s2 = s1\<lparr>calls := calls s1 @ [NextPort]\<rparr>
        in (case port s2 of
              None \<Rightarrow> (Some TypeError, s2)
            | Some p \<Rightarrow>
                let s3 = s2\<lparr>calls := calls s2 @ [PortClose]\<rparr>;
                    s4 = showMsg Info BlankLine s3
                in (None, case closeErr of
                            None \<Rightarrow> s4
                          | Some e \<Rightarrow> showMsg Error (PortCloseError e) s4))
      else (None, s))"

definition sendChallenge :: "config \<Rightarrow> state \<Rightarrow> jserror option \<times> state" where
  "sendChallenge cfg s =
     (case uartWrite cfg challengeMsg False s of
        (Some e, s1) \<Rightarrow> (Some e, s1)
      | (None, s1) \<Rightarrow>
          (None, s1\<lparr>responded := False, timers := timers s1 @ [(3000, ChallengeTimeout)]\<rparr>))"

section \<open>Runs of the module\<close>

text \<open>
  What happens to the module from outside: a call of \<open>uartWrite\<close>, a firing of the sender's
  timer (with the driver's verdict on the write it starts), an assignment to
  \<open>interface.port\<close>, a call of \<open>heartbeat\<close> at a time, a call of \<open>sendChallenge\<close>, a call of
  \<open>parseChallenge\<close> on a buffer and a firing of the challenge timer (with the driver's
  verdict on the close). The queue is a variable of the module that no other code can
  reach. An exception is caught nowhere in the module, so it ends the run.
\<close>

datatype event =
    Enqueue msg bool
  | Tick "jsstring option"
  | SetPort "serialport option"
  | Heartbeat int
  | Challenge
  | Data bytes
  | Timeout "jsstring option"

fun step :: "config \<Rightarrow> event \<Rightarrow> state \<Rightarrow> jserror option \<times> state" where
  "step cfg (Enqueue m publish) s = uartWrite cfg m publish s"
| "step cfg (Tick err) s = uartSender cfg err s"
| "step cfg (SetPort p) s = (None, s\<lparr>port := p\<rparr>)"
| "step cfg (Heartbeat now) s = heartbeat cfg now s"
| "step cfg Challenge s = sendChallenge cfg s"
| "step cfg (Data d) s = (None, snd (parseChallenge cfg d s))"
| "step cfg (Timeout closeErr) s = challengeTimeout closeErr s"

fun run :: "config \<Rightarrow> event list \<Rightarrow> state \<Rightarrow> jserror option \<times> state" where
  "run cfg [] s = (None, s)"
| "run cfg (e # es) s =
     (case step cfg e s of
        (None, s') \<Rightarrow> run cfg es s'
      | (Some err, s') \<Rightarrow> (Some err, s'))"

text \<open>The transmit buffer \<open>uartWrite\<close> builds for a message, or the exception it throws.\<close>

definition txFrame :: "config \<Rightarrow> msg \<Rightarrow> jserror + bytes" where
  "txFrame cfg m =
     (case alloc (kMaxLength cfg) (txlength cfg) of
        Inl e \<Rightarrow> Inl e
      | Inr txBuf \<Rightarrow> fillTxBuf cfg m txBuf)"







text \<open>The messages of the write errors in a log, oldest first.\<close>

fun writeErrors :: "(level \<times> logtext) list \<Rightarrow> jsstring list" where
  "writeErrors [] = []"
| "writeErrors ((Error, UartWriteError e) # ls) = e # writeErrors ls"
| "writeErrors (_ # ls) = writeErrors ls"

section \<open>The ACTIVATE descriptor of config.js\<close>

text \<open>
  \<open>Number(k)\<close>, the conversion of a string to a double, is a parameter of the descriptor's
  function below.
\<close>

datatype jsvalue = Num jsnum | Arr "jsnum list"

definition isNaN :: "jsnum \<Rightarrow> bool" where
  "isNaN k \<longleftrightarrow> k = NaN"

text \<open>\<open>Number.isFinite\<close> does not convert its argument: what is not a number is not finite.\<close>

definition Number_isFinite :: "jsvalue \<Rightarrow> bool" where
  "Number_isFinite v = (case v of Num (Finite x) \<Rightarrow> True | _ \<Rightarrow> False)"

text \<open>\<open>s.split(sep)\<close> for a separator of one code unit; the result is never empty.\<close>

fun split :: "16 word \<Rightarrow> jsstring \<Rightarrow> jsstring list" where
  "split sep [] = [[]]"
| "split sep (c # cs) =
     (if c = sep then [] # split sep cs
      else (case split sep cs of [] \<Rightarrow> [[c]] | p # ps \<Rightarrow> (c # p) # ps))"

text \<open>
  A promise is settled by the first call of \<open>resolve\<close> or \<open>reject\<close> its executor makes;
  the executor runs on after the call, and later calls change nothing.
\<close>

datatype rejection =
    NeedsThree               \<comment> \<open>Error: ACTIVATE needs three arguments.\<close>
  | NonNumeric jsstring      \<comment> \<open>Error: Non-numeric ACTIVATE increment: <d>\<close>
  | CannotActivate jsstring  \<comment> \<open>Error: Tamagotchi cannot be ACTIVATEd the amounts: <d>\<close>

datatype 'a settle = Resolve 'a | Reject rejection

definition promise :: "'a settle list \<Rightarrow> 'a settle option" where
  "promise cs = (case cs of [] \<Rightarrow> None | c # _ \<Rightarrow> Some c)"

text \<open>The calls of \<open>reject\<close> and \<open>resolve\<close> the executor of ACTIVATE makes, in order.\<close>

definition ACTIVATE_executor :: "(jsstring \<Rightarrow> jsnum) \<Rightarrow> jsstring \<Rightarrow> jsnum list settle list" where
  "ACTIVATE_executor toNumber d =
     (let a = map toNumber (split 0x3B d)
      in (if length a \<noteq> 3 then [Reject NeedsThree] else [])
         @ (if list_ex isNaN a \<or> d = [] then [Reject (NonNumeric d)] else [])
         @ (if list_ex (\<lambda>k. Number_isFinite (Arr a)) a then [Reject (CannotActivate d)] else [])
         @ [Resolve a])"

definition ACTIVATE :: "(jsstring \<Rightarrow> jsnum) \<Rightarrow> jsstring \<Rightarrow> jsnum list settle option" where
  "ACTIVATE toNumber d = promise (ACTIVATE_executor toNumber d)"

section \<open>Sample inputs\<close>

text \<open>The multiplexed configuration, a connected state and a few messages.\<close>

definition serverCfg :: config where
  "serverCfg = interface\<lparr>isServer := True\<rparr>"

definition connected :: state where
  "connected = init\<lparr>responded := True, hbTime := Some 0, port := Some \<lparr>isOpen = True\<rparr>\<rparr>"

definition pingMsg :: msg where
  "pingMsg = \<lparr>str = lit ''ping'', addr = Addr (lit ''01a2''), internal = False\<rparr>"

definition msgA :: msg where
  "msgA = \<lparr>str = lit ''A'', addr = Absent, internal = False\<rparr>"





text \<open>A reader of numbers that agrees with \<open>Number\<close> on the strings \<open>1\<close> and \<open>Infinity\<close>.\<close>

definition sampleNumber :: "jsstring \<Rightarrow> jsnum" where
  "sampleNumber k = (if k = lit ''1'' then Finite 1 else if k = lit ''Infinity'' then PosInf else NaN)"

section \<open>Facts about doubles\<close>












section \<open>Facts about the primitives\<close>

lemma parseInt16_ffff: "parseInt16 (lit ''ffff'') = Some 65535"
  by (simp add: parseInt16_def lit_def isWhiteSpace_def hexDigit_def)

lemma alloc_ok: "0 \<le> n \<Longrightarrow> n \<le> mx \<Longrightarrow> alloc mx n = Inr (replicate (nat n) 0)"
  by (simp add: alloc_def)

lemma asciiWrite_zeros:
  "offset \<le> n \<Longrightarrow> length front = offset \<Longrightarrow> n - offset < 2147483648 \<Longrightarrow>
   asciiWrite wide (front @ replicate (n - offset) 0) t offset =
     Inr (front @ map ucast (take (n - offset) t)
          @ replicate (n - offset - length (take (n - offset) t)) 0)"
  by (simp add: asciiWrite_def Let_def min_def take_map)

lemma uint16_le_bytes:
  assumes a: "0 \<le> a" "a \<le> 65535"
  shows "unat (word_of_int a :: 8 word) + unat (word_of_int (a div 256) :: 8 word) * 256 = nat a"
proof -
  have lo: "unat (word_of_int a :: 8 word) = nat (a mod 256)"
    by (simp add: unat_eq_nat_uint uint_word_of_int)
  have "a div 256 < 256" using a by simp
  moreover have "0 \<le> a div 256" using a by simp
  ultimately have hi: "unat (word_of_int (a div 256) :: 8 word) = nat (a div 256)"
    by (simp add: unat_eq_nat_uint uint_word_of_int)
  have nn: "0 \<le> a mod 256" "0 \<le> a div 256"
    using a by simp_all
  have "nat a = nat (a mod 256 + a div 256 * 256)"
    by simp
  also have "\<dots> = nat (a mod 256) + nat (a div 256 * 256)"
    using nn by (intro nat_add_distrib) simp_all
  also have "nat (a div 256 * 256) = nat (a div 256) * nat 256"
    using nn by (intro nat_mult_distrib) simp_all
  finally have "nat (a mod 256) + nat (a div 256) * 256 = nat a"
    by simp
  then show ?thesis
    by (simp only: lo hi)
qed

section \<open>The transmit buffer\<close>

lemma uartWrite_txFrame:
  "txFrame cfg m = Inr b \<Longrightarrow>
     uartWrite cfg m pub s =
       (None, (if debugMode cfg then showMsg Info (AddedToQueue (addr m) (str m)) s else s)
                 \<lparr>queue := queue s @ [(b, pub)]\<rparr>)"
  by (auto simp add: uartWrite_def txFrame_def showMsg_def Let_def split: sum.splits)



lemma internal_frame:
  assumes "0 \<le> txlength cfg" and "txlength cfg \<le> kMaxLength cfg"
      and "txlength cfg < 2147483648" and "internal m"
  shows "txFrame cfg m =
           Inr (map ucast (take (nat (txlength cfg) - 1) (str m))
                @ replicate (nat (txlength cfg) - length (take (nat (txlength cfg) - 1) (str m))) 0)"
  using assms
  by (auto simp add: txFrame_def alloc_ok fillTxBuf_def asciiWrite_def substr0_def Let_def min_def
        nat_diff_distrib take_map)

lemma txFrame_layout:
  assumes tx: "(if isServer cfg \<and> \<not> internal m then 3 else 1) \<le> txlength cfg"
      and mx: "txlength cfg \<le> kMaxLength cfg"
      and wd: "txlength cfg < 2147483648"
      and ad: "isServer cfg \<and> \<not> internal m \<longrightarrow>
                 (case parseInt16 (addrOf m) of None \<Rightarrow> True | Some v \<Rightarrow> 0 \<le> v \<and> v \<le> 65535)"
  shows "let a = (case parseInt16 (addrOf m) of None \<Rightarrow> 0 | Some v \<Rightarrow> v);
             header = (if isServer cfg \<and> \<not> internal m
                       then [word_of_int a, word_of_int (a div 256)] else []);
             payload = map ucast (take (nat (txlength cfg) - length header - 1) (str m));
             pad = nat (txlength cfg) - length header - length payload
         in txFrame cfg m = Inr (header @ payload @ replicate pad 0)
            \<and> length (header @ payload @ replicate pad 0) = nat (txlength cfg)
            \<and> 0 < pad"
proof (cases "isServer cfg \<and> \<not> internal m")
  case True
  define n where "n = nat (txlength cfg)"
  define a where "a = (case parseInt16 (addrOf m) of None \<Rightarrow> 0 | Some v \<Rightarrow> v)"
  define t where "t = substr0 (str m) (txlength cfg - 3)"
  from tx True have n3: "3 \<le> n" and tx0: "0 \<le> txlength cfg"
    by (simp_all add: n_def)
  have al: "alloc (kMaxLength cfg) (txlength cfg) = Inr (replicate n 0)"
    using tx0 mx by (simp add: alloc_ok n_def)
  have wr: "writeUInt16LE (replicate n 0) (parseInt16 (addrOf m))
              = Inr ([word_of_int a, word_of_int (a div 256)] @ replicate (n - 2) 0)"
    using ad True n3 by (auto simp add: writeUInt16LE_def a_def split: option.splits)
  have t_eq: "t = take (n - 3) (str m)"
    using tx True by (auto simp add: t_def substr0_def n_def nat_diff_distrib)
  have tk: "take (n - 2) t = take (n - 3) (str m)"
    by (simp add: t_eq min_def)
  have "txFrame cfg m = asciiWrite (asciiWriteWide cfg)
          ([word_of_int a, word_of_int (a div 256)] @ replicate (n - 2) 0) t 2"
    using True by (simp add: txFrame_def al fillTxBuf_def wr t_def)
  also have "\<dots> = Inr ([word_of_int a, word_of_int (a div 256)] @ map ucast (take (n - 2) t)
                      @ replicate (n - 2 - length (take (n - 2) t)) 0)"
    using n3 wd by (intro asciiWrite_zeros) (simp_all add: n_def)
  finally have fr: "txFrame cfg m = Inr ([word_of_int a, word_of_int (a div 256)]
                      @ map ucast (take (n - 3) (str m))
                      @ replicate (n - 2 - length (take (n - 3) (str m))) 0)"
    by (simp only: tk)
  have len: "length (take (n - 3) (str m)) \<le> n - 3"
    by simp
  show ?thesis
    using True fr len n3
    by (auto simp add: Let_def numeral_2_eq_2 numeral_3_eq_3 simp flip: a_def n_def)
next
  case False
  define n where "n = nat (txlength cfg)"
  define t where "t = substr0 (str m) (txlength cfg - 1)"
  from tx False have n1: "1 \<le> n" and tx0: "0 \<le> txlength cfg"
    by (simp_all add: n_def)
  have al: "alloc (kMaxLength cfg) (txlength cfg) = Inr (replicate n 0)"
    using tx0 mx by (simp add: alloc_ok n_def)
  have t_eq: "t = take (n - 1) (str m)"
    using tx False by (auto simp add: t_def substr0_def n_def nat_diff_distrib)
  have tk: "take n t = take (n - 1) (str m)"
    using n1 by (simp add: t_eq min_def)
  have "txFrame cfg m = asciiWrite (asciiWriteWide cfg) ([] @ replicate (n - 0) 0) t 0"
    using False by (auto simp add: txFrame_def al fillTxBuf_def t_def)
  also have "\<dots> = Inr ([] @ map ucast (take (n - 0) t) @ replicate (n - 0 - length (take (n - 0) t)) 0)"
    using wd by (intro asciiWrite_zeros) (simp_all add: n_def)
  finally have fr: "txFrame cfg m = Inr (map ucast (take (n - 1) (str m))
                      @ replicate (n - length (take (n - 1) (str m))) 0)"
    by (simp add: tk)
  have len: "length (take (n - 1) (str m)) \<le> n - 1"
    by simp
  show ?thesis
    using False fr len n1
    by (auto simp add: Let_def simp flip: n_def)
qed

text \<open>
  Claim C3, as amended. With \<open>txlength\<close> at least 3 in multiplexed mode without the
  \<open>internal\<close> key (at least 1 otherwise), below \<open>2^31\<close> and not above what \<open>Buffer.alloc\<close>
  accepts, and an address that \<open>parseInt\<close> reads as \<open>NaN\<close> or as a value in 0..0xFFFF,
  \<open>uartWrite\<close> returns normally and appends one buffer of exactly \<open>txlength\<close> bytes to the
  queue. In multiplexed mode without the \<open>internal\<close> key its bytes 0 and 1 are the address,
  low byte first (\<open>readUInt16LE\<close> reads it back; 0xFF 0xFF when \<open>msg.addr\<close> is absent or
  null; 0 for \<open>NaN\<close>) and the payload starts at byte 2; otherwise the payload starts at
  byte 0. The payload is the low bytes of the first code units of \<open>msg.str\<close>, as many as
  leave one free byte, and every byte after it is zero, of which there is at least one.
\<close>

theorem uartWrite_buffer_layout:
  assumes tx: "(if isServer cfg \<and> \<not> internal m then 3 else 1) \<le> txlength cfg"
      and mx: "txlength cfg \<le> kMaxLength cfg"
      and wd: "txlength cfg < 2147483648"
      and ad: "isServer cfg \<and> \<not> internal m \<longrightarrow>
                 (case parseInt16 (addrOf m) of None \<Rightarrow> True | Some v \<Rightarrow> 0 \<le> v \<and> v \<le> 65535)"
  shows "let a = (case parseInt16 (addrOf m) of None \<Rightarrow> 0 | Some v \<Rightarrow> v);
             header = (if isServer cfg \<and> \<not> internal m
                       then [word_of_int a, word_of_int (a div 256)] else []);
             payload = map ucast (take (nat (txlength cfg) - length header - 1) (str m));
             pad = nat (txlength cfg) - length header - length payload;
             buf = header @ payload @ replicate pad 0
         in fst (uartWrite cfg m publish s) = None
            \<and> queue (snd (uartWrite cfg m publish s)) = queue s @ [(buf, publish)]
            \<and> length buf = nat (txlength cfg)
            \<and> 0 < pad
            \<and> (isServer cfg \<and> \<not> internal m \<longrightarrow> readUInt16LE buf = Inr (nat a))
            \<and> (isServer cfg \<and> \<not> internal m \<and> addr m \<in> {Absent, Null}
                 \<longrightarrow> header = [0xFF, 0xFF])"
proof -
  define a where "a = (case parseInt16 (addrOf m) of None \<Rightarrow> 0 | Some v \<Rightarrow> v)"
  define header :: bytes where
    "header = (if isServer cfg \<and> \<not> internal m then [word_of_int a, word_of_int (a div 256)] else [])"
  define payload :: bytes where
    "payload = map ucast (take (nat (txlength cfg) - length header - 1) (str m))"
  define pad where "pad = nat (txlength cfg) - length header - length payload"
  define buf where "buf = header @ payload @ replicate pad 0"
  have "txFrame cfg m = Inr buf \<and> length buf = nat (txlength cfg) \<and> 0 < pad"
    using txFrame_layout [OF tx mx wd ad]
    unfolding Let_def buf_def pad_def payload_def header_def a_def .
  then have fr: "txFrame cfg m = Inr buf" and len: "length buf = nat (txlength cfg)"
    and pad: "0 < pad"
    by blast+
  have w: "fst (uartWrite cfg m publish s) = None"
          "queue (snd (uartWrite cfg m publish s)) = queue s @ [(buf, publish)]"
    by (simp_all add: uartWrite_txFrame [OF fr] showMsg_def)
  have rd: "readUInt16LE buf = Inr (nat a)" if mux: "isServer cfg \<and> \<not> internal m"
  proof -
    from ad mux have "0 \<le> a" "a \<le> 65535"
      by (auto simp add: a_def split: option.splits)
    from uint16_le_bytes [OF this] mux show ?thesis
      by (simp add: readUInt16LE_def buf_def header_def)
  qed
  have bc: "header = [0xFF, 0xFF]"
    if mux: "isServer cfg \<and> \<not> internal m" and ab: "addr m \<in> {Absent, Null}"
  proof -
    from ab have "addrOf m = lit ''ffff''"
      by (auto simp add: addrOf_def)
    then have "a = 65535"
      by (simp add: a_def parseInt16_ffff)
    with mux show ?thesis
      by (simp add: header_def)
  qed
  from w len pad rd bc show ?thesis
    unfolding Let_def a_def [symmetric] header_def [symmetric] payload_def [symmetric]
      pad_def [symmetric] buf_def [symmetric]
    by blast
qed

text \<open>
  An instance: \<open>ping\<close> for the device \<open>01a2\<close> in the multiplexed configuration of 80 bytes.
\<close>

theorem uartWrite_buffer_layout_witness:
  "3 \<le> txlength serverCfg \<and> txlength serverCfg \<le> kMaxLength serverCfg
   \<and> txlength serverCfg < 2147483648
   \<and> parseInt16 (addrOf pingMsg) = Some 418
   \<and> queue (snd (uartWrite serverCfg pingMsg True init))
       = [([0xA2, 0x01, 0x70, 0x69, 0x6E, 0x67] @ replicate 74 0, True)]"
  using uartWrite_buffer_layout [of serverCfg pingMsg True init]
  by (simp add: interface_def init_def serverCfg_def pingMsg_def lit_def
                     parseInt16_def isWhiteSpace_def hexDigit_def addrOf_def Let_def)

text \<open>
  Claim C3 as stated fails for a \<open>txlength\<close> that leaves no room for the terminator, for
  one of \<open>2^31\<close> or more and for an address above 0xFFFF. With \<open>txlength = 2\<close> in multiplexed
  mode the buffer is the two address bytes and holds no zero at all; with \<open>txlength = 0\<close> in
  direct mode it is empty; a negative \<open>txlength\<close> makes \<open>Buffer.alloc\<close> throw, and the
  address \<open>10000\<close> makes \<open>writeUInt16LE\<close> throw, with nothing enqueued; with
  \<open>txlength = 2^31\<close>, on a platform whose \<open>asciiWrite\<close> stores nothing into so large a room,
  the buffer enqueued for the message A is all zeros.
\<close>

theorem uartWrite_buffer_layout_counterexample:
  "queue (snd (uartWrite (serverCfg\<lparr>txlength := 2\<rparr>) msgA True init)) = [([0xFF, 0xFF], True)]
   \<and> (0 :: 8 word) \<notin> set [0xFF, 0xFF]
   \<and> queue (snd (uartWrite (interface\<lparr>txlength := 0\<rparr>) msgA True init)) = [([], True)]
   \<and> uartWrite (interface\<lparr>txlength := - 1\<rparr>) msgA True init = (Some AllocSizeError, init)
   \<and> uartWrite serverCfg (msgA\<lparr>addr := Addr (lit ''10000'')\<rparr>) True init
       = (Some ValueOutOfRange, init)
   \<and> queue (snd (uartWrite (interface\<lparr>txlength := 2147483648\<rparr>) msgA True init))
       = [(replicate 2147483648 0, True)]"
  by (simp add: serverCfg_def interface_def msgA_def init_def lit_def uartWrite_def alloc_def
        fillTxBuf_def writeUInt16LE_def asciiWrite_def substr0_def parseInt16_def
        isWhiteSpace_def hexDigit_def addrOf_def showMsg_def Let_def)

section \<open>The heartbeat\<close>








text \<open>
  Claim C2 as stated fails: after a probe at time 15000 in a connected state whose last
  heartbeat time is 0, the stored time is not 15000.
\<close>

theorem heartbeat_hbTime_counterexample:
  "hbTime (snd (heartbeat interface 15000 connected)) \<noteq> Some 15000"
  by (simp add: heartbeat_def uartWrite_def showMsg_def Let_def connected_def init_def
        split: sum.splits)

text \<open>
  Claim C2, as amended. After a call of \<open>heartbeat\<close>, whether the probe was enqueued or
  not, the stored last heartbeat time is the one found before the call.
\<close>

theorem heartbeat_keeps_hbTime:
  "hbTime (snd (heartbeat cfg now s)) = hbTime s"
  by (simp add: heartbeat_def uartWrite_def showMsg_def Let_def split: sum.splits)

section \<open>The send queue\<close>

lemma writeErrors_append: "writeErrors (xs @ ys) = writeErrors xs @ writeErrors ys"
  by (induction xs rule: writeErrors.induct) simp_all













lemma run_Cons_ok:
  "fst (step cfg e s) = None \<Longrightarrow> run cfg (e # es) s = run cfg es (snd (step cfg e s))"
  by (cases "step cfg e s") simp





lemma uartSender_step:
  assumes "port s = Some p" and "queue s = (b, pub) # rest" and "isServer cfg \<longrightarrow> 2 \<le> length b"
  shows "fst (uartSender cfg w s) = None"
    and "queue (snd (uartSender cfg w s)) = rest"
    and "sent (snd (uartSender cfg w s)) = sent s @ [b]"
    and "port (snd (uartSender cfg w s)) = port s"
    and "writeErrors (shown (snd (uartSender cfg w s)))
           = writeErrors (shown s) @ (case w of None \<Rightarrow> [] | Some e \<Rightarrow> [e])"
  using assms
  by (cases b; cases "tl b";
      auto simp add: uartSender_def readUInt16LE_def writeCallback_def showMsg_def Let_def
                     writeErrors_append split: option.splits)+

lemma uartSender_idle:
  "queue s = [] \<Longrightarrow> uartSender cfg w s = (None, s)"
  by (simp add: uartSender_def)

lemma run_ticks:
  assumes "port s = Some p"
      and "isServer cfg \<longrightarrow> (\<forall>e \<in> set (queue s). 2 \<le> length (fst e))"
  shows "fst (run cfg (map Tick ws) s) = None
     \<and> queue (snd (run cfg (map Tick ws) s)) = drop (length ws) (queue s)
     \<and> sent (snd (run cfg (map Tick ws) s)) = sent s @ map fst (take (length ws) (queue s))
     \<and> writeErrors (shown (snd (run cfg (map Tick ws) s)))
           = writeErrors (shown s) @ [e. Some e \<leftarrow> take (length (queue s)) ws]"
  using assms
proof (induction ws arbitrary: s)
  case Nil
  show ?case by simp
next
  case (Cons w ws)
  show ?case
  proof (cases "queue s")
    case Nil
    then have "run cfg (map Tick (w # ws)) s = run cfg (map Tick ws) s"
      by (simp add: uartSender_idle)
    with Cons.IH [OF Cons.prems] Nil show ?thesis
      by (simp del: run.simps)
  next
    case (Cons bp rest)
    obtain b pub where bp: "bp = (b, pub)" by (cases bp)
    let ?s' = "snd (uartSender cfg w s)"
    have q: "queue s = (b, pub) # rest" using Cons bp by simp
    have safe: "isServer cfg \<longrightarrow> 2 \<le> length b"
      using Cons.prems(2) q by simp
    note st = uartSender_step [OF Cons.prems(1) q safe, of w]
    have eq: "run cfg (map Tick (w # ws)) s = run cfg (map Tick ws) ?s'"
      using st(1) by (simp add: run_Cons_ok del: run.simps)
    have p': "port ?s' = Some p" using st(4) Cons.prems(1) by simp
    have safe': "isServer cfg \<longrightarrow> (\<forall>e \<in> set (queue ?s'). 2 \<le> length (fst e))"
      using Cons.prems(2) q st(2) by simp
    from Cons.IH [OF p' safe'] show ?thesis
      unfolding eq by (simp add: st q)
  qed
qed


















text \<open>
  Claim C5. With a port set and, in server mode, no queued buffer shorter than the two
  address bytes, any sequence of firings of the sender, whatever the driver answers to each
  write, ends without an exception; every firing removes exactly the oldest entry and hands
  it to \<open>port.write\<close> once, entries leave the queue for good, and each failed write has
  left its error in the log while the following firings went on with the next entries.
\<close>

theorem write_failure_dropped:
  assumes "port s = Some p"
      and "isServer cfg \<longrightarrow> (\<forall>e \<in> set (queue s). 2 \<le> length (fst e))"
  shows "fst (run cfg (map Tick ws) s) = None
     \<and> queue (snd (run cfg (map Tick ws) s)) = drop (length ws) (queue s)
     \<and> sent (snd (run cfg (map Tick ws) s)) = sent s @ map fst (take (length ws) (queue s))
     \<and> writeErrors (shown (snd (run cfg (map Tick ws) s)))
           = writeErrors (shown s) @ [e. Some e \<leftarrow> take (length (queue s)) ws]"
  using assms by (rule run_ticks)

text \<open>
  Three queued buffers and four firings in server mode, the first and the third write
  failing: the queue is empty, each buffer was written once, both errors are logged.
\<close>

theorem write_failure_dropped_witness:
  "port (connected\<lparr>queue := [([0x41, 0], True), ([0x42, 0], False), ([0x43, 0], True)]\<rparr>)
     = Some \<lparr>isOpen = True\<rparr>
   \<and> run serverCfg (map Tick [Some (lit ''EIO''), None, Some (lit ''EBUSY''), None])
        (connected\<lparr>queue := [([0x41, 0], True), ([0x42, 0], False), ([0x43, 0], True)]\<rparr>)
     = (None, connected\<lparr>queue := [], sent := [[0x41, 0], [0x42, 0], [0x43, 0]],
                        shown := [(Error, UartWriteError (lit ''EIO'')),
                                  (Error, UartWriteError (lit ''EBUSY''))]\<rparr>)"
  using write_failure_dropped [of "connected\<lparr>queue := [([0x41, 0], True), ([0x42, 0], False), ([0x43, 0], True)]\<rparr>"
          "\<lparr>isOpen = True\<rparr>" serverCfg "[Some (lit ''EIO''), None, Some (lit ''EBUSY''), None]"]
  by (simp add: serverCfg_def interface_def connected_def init_def lit_def uartSender_def
        readUInt16LE_def writeCallback_def showMsg_def Let_def)

section \<open>The challenge\<close>

lemma ack_iff:
  "byteAt data 0 = byteAt data 1 \<and> byteAt data 1 = Some 0xfe \<and> byteAt data 2 = Some 1
     \<longleftrightarrow> (\<exists>rest. data = 0xFE # 0xFE # 1 # rest)"
proof (cases data)
  case Nil
  then show ?thesis by (simp add: byteAt_def)
next
  case (Cons a as)
  note d = this
  show ?thesis
  proof (cases as)
    case Nil
    with d show ?thesis by (simp add: byteAt_def)
  next
    case (Cons b bs)
    with d show ?thesis
      by (cases bs) (auto simp add: byteAt_def)
  qed
qed

text \<open>
  Claim C6. When the buffer starts with the bytes 0xFE 0xFE 0x01, \<open>parseChallenge\<close> leaves
  the responded flag set and the blacklist empty; for every other buffer, also one shorter
  than three bytes, it leaves both as they were.
\<close>

theorem parseChallenge_ack:
  "((\<exists>rest. data = 0xFE # 0xFE # 1 # rest) \<longrightarrow>
      responded (snd (parseChallenge cfg data s))
      \<and> blacklist (snd (parseChallenge cfg data s)) = [])
   \<and> (\<not> (\<exists>rest. data = 0xFE # 0xFE # 1 # rest) \<longrightarrow>
      responded (snd (parseChallenge cfg data s)) = responded s
      \<and> blacklist (snd (parseChallenge cfg data s)) = blacklist s)"
  by (simp only: parseChallenge_def ack_iff) (auto simp add: clearBlacklist_def showMsg_def Let_def)

text \<open>
  With \<open>COM3\<close> on the blacklist and no response so far: the acknowledgement sets the flag
  and empties the list, the same bytes with 2 in the third place change neither.
\<close>

theorem parseChallenge_ack_witness:
  "responded (snd (parseChallenge interface [0xFE, 0xFE, 1, 0x4F, 0x4B]
                     (init\<lparr>blacklist := [''COM3'']\<rparr>)))
   \<and> blacklist (snd (parseChallenge interface [0xFE, 0xFE, 1, 0x4F, 0x4B]
                        (init\<lparr>blacklist := [''COM3'']\<rparr>))) = []
   \<and> \<not> responded (snd (parseChallenge interface [0xFE, 0xFE, 2, 0x4F, 0x4B]
                        (init\<lparr>blacklist := [''COM3'']\<rparr>)))
   \<and> blacklist (snd (parseChallenge interface [0xFE, 0xFE, 2, 0x4F, 0x4B]
                        (init\<lparr>blacklist := [''COM3'']\<rparr>))) = [''COM3'']"
  using parseChallenge_ack [of "[0xFE, 0xFE, 1, 0x4F, 0x4B]" interface "init\<lparr>blacklist := [''COM3'']\<rparr>"]
        parseChallenge_ack [of "[0xFE, 0xFE, 2, 0x4F, 0x4B]" interface "init\<lparr>blacklist := [''COM3'']\<rparr>"]
  by (simp add: init_def)

text \<open>
  Claim C9. \<open>parseChallenge\<close> returns \<open>false\<close> for every buffer, the acknowledgement
  included.
\<close>

theorem parseChallenge_returns_false:
  "fst (parseChallenge cfg data s) = False"
  by (simp add: parseChallenge_def Let_def)

text \<open>
  Claim C7, as amended. For a \<open>txlength\<close> from 1 up to \<open>2^31 - 1\<close> that \<open>Buffer.alloc\<close>
  accepts, \<open>sendChallenge\<close> returns normally, appends to the queue, with \<open>publish\<close> false,
  a buffer of \<open>txlength\<close> bytes that holds the first \<open>txlength - 1\<close> code units of the
  challenge \<open>\0\0\x01Identify\<close> from byte 0 and zeros after them (the whole challenge from
  \<open>txlength\<close> 12 on), leaves the responded flag cleared and arms one timer of 3000 ms. The
  timer's function, run in a state with the flag false and a port set, calls
  \<open>portFinder.nextPort()\<close> and then \<open>port.close\<close>; run in a state with the flag set, it
  changes nothing.
\<close>

theorem sendChallenge_timeout:
  assumes "1 \<le> txlength cfg" and "txlength cfg \<le> kMaxLength cfg"
      and "txlength cfg < 2147483648"
  shows "fst (sendChallenge cfg s) = None
     \<and> queue (snd (sendChallenge cfg s)) =
          queue s @ [(map ucast (take (nat (txlength cfg) - 1) ([0, 0, 1] @ lit ''Identify''))
                       @ replicate (nat (txlength cfg)
                           - length (take (nat (txlength cfg) - 1) ([0, 0, 1] @ lit ''Identify''))) 0,
                      False)]
     \<and> (12 \<le> txlength cfg \<longrightarrow>
          queue (snd (sendChallenge cfg s)) =
            queue s @ [([0, 0, 1, 0x49, 0x64, 0x65, 0x6E, 0x74, 0x69, 0x66, 0x79]
                         @ replicate (nat (txlength cfg) - 11) 0, False)])
     \<and> \<not> responded (snd (sendChallenge cfg s))
     \<and> timers (snd (sendChallenge cfg s)) = timers s @ [(3000, ChallengeTimeout)]
     \<and> (\<not> responded s' \<and> port s' \<noteq> None \<longrightarrow>
           fst (challengeTimeout closeErr s') = None
           \<and> calls (snd (challengeTimeout closeErr s')) = calls s' @ [NextPort, PortClose])
     \<and> (responded s' \<longrightarrow> challengeTimeout closeErr s' = (None, s'))"
proof -
  have "internal challengeMsg" by (simp add: challengeMsg_def)
  moreover from assms(1) have "0 \<le> txlength cfg" by simp
  ultimately have fr: "txFrame cfg challengeMsg =
           Inr (map ucast (take (nat (txlength cfg) - 1) ([0, 0, 1] @ lit ''Identify''))
                @ replicate (nat (txlength cfg)
                    - length (take (nat (txlength cfg) - 1) ([0, 0, 1] @ lit ''Identify''))) 0)"
    using internal_frame [of cfg challengeMsg] assms(2,3) by (simp add: challengeMsg_def)
  have q: "queue (snd (sendChallenge cfg s)) =
          queue s @ [(map ucast (take (nat (txlength cfg) - 1) ([0, 0, 1] @ lit ''Identify''))
                       @ replicate (nat (txlength cfg)
                           - length (take (nat (txlength cfg) - 1) ([0, 0, 1] @ lit ''Identify''))) 0,
                      False)]"
    by (simp add: sendChallenge_def uartWrite_txFrame [OF fr] showMsg_def)
  have a: "fst (sendChallenge cfg s) = None"
    by (simp add: sendChallenge_def uartWrite_txFrame [OF fr])
  have whole: "12 \<le> txlength cfg \<longrightarrow>
          queue (snd (sendChallenge cfg s)) =
            queue s @ [([0, 0, 1, 0x49, 0x64, 0x65, 0x6E, 0x74, 0x69, 0x66, 0x79]
                         @ replicate (nat (txlength cfg) - 11) 0, False)]"
  proof
    assume "12 \<le> txlength cfg"
    then have "11 \<le> nat (txlength cfg) - 1" by simp
    then have "take (nat (txlength cfg) - 1) ([0, 0, 1] @ lit ''Identify'')
                 = [0, 0, 1] @ lit ''Identify''"
      by (simp add: lit_def)
    then show "queue (snd (sendChallenge cfg s)) =
            queue s @ [([0, 0, 1, 0x49, 0x64, 0x65, 0x6E, 0x74, 0x69, 0x66, 0x79]
                         @ replicate (nat (txlength cfg) - 11) 0, False)]"
      by (simp add: q lit_def)
  qed
  have r: "\<not> responded (snd (sendChallenge cfg s))"
    by (simp add: sendChallenge_def uartWrite_txFrame [OF fr])
  have t: "timers (snd (sendChallenge cfg s)) = timers s @ [(3000, ChallengeTimeout)]"
    by (simp add: sendChallenge_def uartWrite_txFrame [OF fr] showMsg_def)
  have b: "\<not> responded s' \<and> port s' \<noteq> None \<longrightarrow>
           fst (challengeTimeout closeErr s') = None
           \<and> calls (snd (challengeTimeout closeErr s')) = calls s' @ [NextPort, PortClose]"
    by (auto simp add: challengeTimeout_def showMsg_def Let_def split: option.splits)
  have c: "responded s' \<longrightarrow> challengeTimeout closeErr s' = (None, s')"
    by (simp add: challengeTimeout_def)
  show ?thesis
    by (intro conjI) (fact a q whole r t b c)+
qed

text \<open>
  In the default configuration, from a connected state: the challenge of 80 bytes is
  queued; the timer's function run right after it asks for the next port and closes this
  one, and run on a state that has responded it does nothing.
\<close>

theorem sendChallenge_timeout_witness:
  "1 \<le> txlength interface \<and> txlength interface \<le> kMaxLength interface
   \<and> txlength interface < 2147483648 \<and> 12 \<le> txlength interface
   \<and> sendChallenge interface connected
       = (None, connected\<lparr>responded := False,
                   queue := [([0, 0, 1, 0x49, 0x64, 0x65, 0x6E, 0x74, 0x69, 0x66, 0x79]
                              @ replicate 69 0, False)],
                   timers := [(3000, ChallengeTimeout)]\<rparr>)
   \<and> calls (snd (challengeTimeout None (snd (sendChallenge interface connected))))
       = [NextPort, PortClose]
   \<and> challengeTimeout None connected = (None, connected)"
  using sendChallenge_timeout [of interface connected "snd (sendChallenge interface connected)" None]
        sendChallenge_timeout [of interface connected connected None]
  by (simp add: interface_def connected_def init_def sendChallenge_def challengeTimeout_def
        challengeMsg_def uartWrite_def alloc_def fillTxBuf_def asciiWrite_def substr0_def
        lit_def showMsg_def Let_def)

text \<open>
  Claim C7 as stated fails outside those bounds. With a negative \<open>txlength\<close>
  \<open>Buffer.alloc\<close> throws: nothing is enqueued, the responded flag stays set and no timer is
  armed. With \<open>txlength = 0\<close> the buffer enqueued is empty, and with \<open>txlength = 2^31\<close>, on
  a platform whose \<open>asciiWrite\<close> stores nothing into so large a room, it is all zeros. And
  when the timer fires with the flag false and no port set, \<open>portFinder.nextPort()\<close> is
  called and the call of \<open>close\<close> throws a TypeError: no port is closed.
\<close>

theorem sendChallenge_timeout_counterexample:
  "sendChallenge (interface\<lparr>txlength := - 1\<rparr>) connected = (Some AllocSizeError, connected)
   \<and> responded connected
   \<and> timers connected = []
   \<and> queue (snd (sendChallenge (interface\<lparr>txlength := 0\<rparr>) connected)) = [([], False)]
   \<and> queue (snd (sendChallenge (interface\<lparr>txlength := 2147483648\<rparr>) connected))
       = [(replicate 2147483648 0, False)]
   \<and> \<not> responded init
   \<and> challengeTimeout None init
       = (Some TypeError, init\<lparr>shown := [(Info, NoResponse)], calls := [NextPort]\<rparr>)"
  by (simp add: interface_def connected_def init_def sendChallenge_def challengeTimeout_def
        challengeMsg_def uartWrite_def alloc_def fillTxBuf_def asciiWrite_def substr0_def
        lit_def showMsg_def Let_def)

section \<open>The finiteness guard of ACTIVATE\<close>

lemma guard_false: "\<not> list_ex (\<lambda>k. Number_isFinite (Arr a)) a"
  by (simp add: Number_isFinite_def list_ex_iff)

text \<open>
  Claim C10. The guard passes the whole array to \<open>Number.isFinite\<close> and is false for every
  input. So for every string with exactly three components between semicolons, none of
  which \<open>Number\<close> reads as \<open>NaN\<close>, the promise resolves with the three numbers, infinite ones
  included.
\<close>

theorem ACTIVATE_guard_never_rejects:
  assumes "length (split 0x3B d) = 3" and "\<forall>p \<in> set (split 0x3B d). toNumber p \<noteq> NaN"
  shows "ACTIVATE toNumber d = Some (Resolve (map toNumber (split 0x3B d)))
         \<and> \<not> list_ex (\<lambda>k. Number_isFinite (Arr (map toNumber (split 0x3B d))))
                (map toNumber (split 0x3B d))"
proof -
  from assms(1) have "d \<noteq> []"
    by auto
  moreover from assms(2) have "\<not> list_ex isNaN (map toNumber (split 0x3B d))"
    by (auto simp add: list_ex_iff isNaN_def)
  ultimately show ?thesis
    using assms(1) by (simp add: ACTIVATE_def ACTIVATE_executor_def promise_def guard_false Let_def)
qed

text \<open>The input \<open>1;Infinity;1\<close> resolves with 1, infinity and 1.\<close>

theorem ACTIVATE_guard_never_rejects_witness:
  "length (split 0x3B (lit ''1;Infinity;1'')) = 3
   \<and> map sampleNumber (split 0x3B (lit ''1;Infinity;1'')) = [Finite 1, PosInf, Finite 1]
   \<and> ACTIVATE sampleNumber (lit ''1;Infinity;1'') = Some (Resolve [Finite 1, PosInf, Finite 1])"
  using ACTIVATE_guard_never_rejects [of "lit ''1;Infinity;1''" sampleNumber]
  by (simp add: lit_def sampleNumber_def)

end
